theory Spec2Isabelle
  imports Main "HOL-Library.Sublist" "HOL-Library.Multiset"
begin

section \<open>Data model\<close>

text \<open>
  The repository holds two deployable programs. Variant 1 (\<^verbatim>\<open>src/unnamed/part_000\<close>) serves
  todos without authentication; variant 2 (\<^verbatim>\<open>src/server.js\<close>) adds users, bearer tokens
  and a \<^verbatim>\<open>userId\<close> on every todo. Both declare their documents with a Mongoose schema;
  the records below follow those schemas field by field.

  A point in time is the number \<^verbatim>\<open>Date.now()\<close> returns (milliseconds since the epoch).
  The schema field \<^verbatim>\<open>id\<close> is called \<open>todo_id\<close> here, because \<open>id\<close> is HOL's identity function.
\<close>

type_synonym time = int

record subtask =
  st_id :: string
  st_title :: "string option"
  st_completed :: bool

record todo =
  todo_id :: string
  title :: string
  description :: "string option"
  completed :: bool
  priority :: string
  category :: string
  tags :: "string list"
  dueDate :: "time option"
  subtasks :: "subtask list"
  createdAt :: time
  updatedAt :: time

text \<open>Variant 2 adds the owner: \<^verbatim>\<open>userId: { type: String, required: true }\<close>.\<close>

record todo2 = todo +
  userId :: string

text \<open>
  A request body is a JSON object; every field may be absent. A field that is present is
  taken to hold a value of the JSON type the schema asks for (a string, a boolean, an array,
  and for a date a number of milliseconds), so that its cast to the schema is the identity.
  The cast that can still fail on such a body is that of a number to a \<^verbatim>\<open>Date\<close>, see
  \<open>cast_date\<close> below.
\<close>

record subtask_body =
  sb_id :: "string option"
  sb_title :: "string option"
  sb_completed :: "bool option"

record body =
  b_id :: "string option"
  b_userId :: "string option"
  b_title :: "string option"
  b_description :: "string option"
  b_completed :: "bool option"
  b_priority :: "string option"
  b_category :: "string option"
  b_tags :: "string list option"
  b_dueDate :: "int option"
  b_subtasks :: "subtask_body list option"
  b_createdAt :: "int option"
  b_updatedAt :: "int option"

definition empty_body :: body where
  "empty_body = \<lparr>b_id = None, b_userId = None, b_title = None, b_description = None,
     b_completed = None, b_priority = None, b_category = None, b_tags = None,
     b_dueDate = None, b_subtasks = None, b_createdAt = None, b_updatedAt = None\<rparr>"

text \<open>
  The query string (\<^verbatim>\<open>req.query\<close>): each parameter is absent or a string. Variant 1 reads
  the first four on \<^verbatim>\<open>GET /api/todos\<close>, variant 2 reads \<^verbatim>\<open>priorities\<close> on
  \<^verbatim>\<open>GET /api/todos/filter\<close>.
\<close>

record query =
  q_category :: "string option"
  q_priority :: "string option"
  q_completed :: "string option"
  q_search :: "string option"
  q_priorities :: "string option"

definition empty_query :: query where
  "empty_query = \<lparr>q_category = None, q_priority = None, q_completed = None, q_search = None,
     q_priorities = None\<rparr>"

text \<open>
  What a handler call takes from its surroundings: the values \<^verbatim>\<open>Date.now()\<close> returns on its
  first and second call during the request, the identifier \<^verbatim>\<open>uuidv4()\<close> returns for a new
  todo, and the identifier it returns for the \<open>k\<close>-th subtask that arrives without one.
\<close>

record env =
  date_now1 :: time
  date_now2 :: time
  uuid_todo :: string
  uuid_subtask :: "nat \<Rightarrow> string"

datatype verb = GET | POST | PUT | DELETE | PATCH

text \<open>
  A response is a status code and a body. \<open>Failure e\<close> is \<^verbatim>\<open>{ error: e }\<close>;
  \<open>FailureDetails e\<close> is \<^verbatim>\<open>{ error: e, details: err.message }\<close>, where the text of
  \<^verbatim>\<open>err.message\<close> comes from the library that raised and is not modelled.
  \<open>CannotPage v p\<close> is not JSON: it is the page \<^verbatim>\<open>Cannot VERB path\<close> with which Express
  itself answers (status 404) a request that no registered route takes.
\<close>

datatype 'a json =
    Todos "'a list"
  | TodoDoc 'a
  | Message string
  | Token string
  | Failure string
  | FailureDetails string
  | CannotPage verb string

datatype 'a response = Response nat "'a json"

fun status :: "'a response \<Rightarrow> nat" where
  "status (Response s b) = s"

section \<open>Schema: defaults and validators\<close>

text \<open>
  \<^verbatim>\<open>required: true\<close> on a String path rejects an absent value and the empty string;
  \<^verbatim>\<open>enum: ["low", "medium", "high"]\<close> rejects every other string.
\<close>

definition priority_enum :: "string list" where
  "priority_enum = [''low'', ''medium'', ''high'']"

definition required_string :: "string option \<Rightarrow> bool" where
  "required_string v = (case v of None \<Rightarrow> False | Some s \<Rightarrow> s \<noteq> [])"

definition valid_subtask :: "subtask \<Rightarrow> bool" where
  "valid_subtask st = required_string (st_title st)"

definition valid_todo :: "'a todo_scheme \<Rightarrow> bool" where
  "valid_todo t \<longleftrightarrow>
     required_string (Some (title t)) \<and>
     required_string (Some (priority t)) \<and> priority t \<in> set priority_enum \<and>
     required_string (Some (category t)) \<and>
     list_all valid_subtask (subtasks t)"

definition valid_todo2 :: "todo2 \<Rightarrow> bool" where
  "valid_todo2 t \<longleftrightarrow> required_string (Some (userId t)) \<and> valid_todo t"

text \<open>
  A \<^verbatim>\<open>Date\<close> holds at most 8.64e15 milliseconds on either side of the epoch. Mongoose casts
  a number \<open>d\<close> with \<^verbatim>\<open>new Date(d)\<close>; beyond that range the date is invalid and the cast
  raises a \<^verbatim>\<open>CastError\<close> (\<open>None\<close>). The readings of the clock are within the range.
\<close>

definition date_limit :: int where
  "date_limit = 8640000000000000"

definition cast_date :: "int \<Rightarrow> time option" where
  "cast_date d = (if - date_limit \<le> d \<and> d \<le> date_limit then Some d else None)"

definition date_casts :: "int option \<Rightarrow> bool" where
  "date_casts v = (case v of None \<Rightarrow> True | Some d \<Rightarrow> cast_date d \<noteq> None)"

text \<open>
  Casting a submitted subtask to the subdocument schema fills the defaults:
  \<^verbatim>\<open>id: { default: uuidv4 }\<close> and \<^verbatim>\<open>completed: { default: false }\<close>.
  The counter \<open>k\<close> numbers the calls of \<^verbatim>\<open>uuidv4\<close>.
\<close>

fun cast_subtasks :: "(nat \<Rightarrow> string) \<Rightarrow> nat \<Rightarrow> subtask_body list \<Rightarrow> subtask list" where
  "cast_subtasks gen k [] = []"
| "cast_subtasks gen k (sb # sbs) =
     (case sb_id sb of
        Some i \<Rightarrow>
          \<lparr>st_id = i, st_title = sb_title sb,
           st_completed = (case sb_completed sb of None \<Rightarrow> False | Some c \<Rightarrow> c)\<rparr>
          # cast_subtasks gen k sbs
      | None \<Rightarrow>
          \<lparr>st_id = gen k, st_title = sb_title sb,
           st_completed = (case sb_completed sb of None \<Rightarrow> False | Some c \<Rightarrow> c)\<rparr>
          # cast_subtasks gen (Suc k) sbs)"

section \<open>The collection\<close>

text \<open>
  A collection is the list of its documents in storage order. \<^verbatim>\<open>findOne\<close> and the
  \<^verbatim>\<open>findOneAnd...\<close> calls act on the first document the filter matches; \<open>find_idx\<close>
  gives its position. \<^verbatim>\<open>.sort({ createdAt: -1 })\<close> orders by \<open>createdAt\<close>, latest first;
  documents of equal \<open>createdAt\<close> stay in storage order here (the store leaves their order
  open, and no statement below depends on it).
\<close>

fun find_idx :: "('a \<Rightarrow> bool) \<Rightarrow> 'a list \<Rightarrow> nat option" where
  "find_idx P [] = None"
| "find_idx P (x # xs) =
     (if P x then Some 0 else (case find_idx P xs of None \<Rightarrow> None | Some i \<Rightarrow> Some (Suc i)))"

fun delete_at :: "nat \<Rightarrow> 'a list \<Rightarrow> 'a list" where
  "delete_at i [] = []"
| "delete_at 0 (x # xs) = xs"
| "delete_at (Suc i) (x # xs) = x # delete_at i xs"

definition sort_createdAt_desc :: "'a todo_scheme list \<Rightarrow> 'a todo_scheme list" where
  "sort_createdAt_desc ts = sort_key (\<lambda>t. - createdAt t) ts"

section \<open>Variant 1: handlers of \<^verbatim>\<open>src/unnamed/part_000\<close>\<close>

subsection \<open>\<^verbatim>\<open>PATCH /api/todos/:id/toggle\<close>\<close>


subsection \<open>\<^verbatim>\<open>GET /api/todos\<close>\<close>

text \<open>
  The handler builds a MongoDB filter from the query. \<^verbatim>\<open>if (category)\<close> tests JavaScript
  truthiness: an absent parameter and the empty string both skip the assignment.
\<close>

definition truthy :: "string option \<Rightarrow> string option" where
  "truthy v = (case v of None \<Rightarrow> None | Some s \<Rightarrow> if s = [] then None else Some s)"

text \<open>
  \<^verbatim>\<open>new RegExp(search, "i")\<close> reads the search text as a regular-expression pattern.
  The pattern language is modelled for patterns built from ordinary characters and the dot:
  an ordinary character matches itself up to letter case, the dot matches every character
  but the line feed. A pattern that contains another special character
  (\<^verbatim>\<open>\ ^ $ * + ? ( ) [ ] { } |\<close>) is handed to \<open>ext\<close>, the rest of the regular-expression
  engine, which either rejects it (\<^verbatim>\<open>SyntaxError\<close>, \<open>None\<close>) or gives its matcher.
  Characters are bytes; letter case is folded for the letters \<^verbatim>\<open>A\<close> to \<^verbatim>\<open>Z\<close>.
\<close>

datatype atom = Lit char | AnyChar

type_synonym regexp = "string \<Rightarrow> bool"

definition special :: "char \<Rightarrow> bool" where
  "special c \<longleftrightarrow> c \<in> set ''^$.*+?()[]{}|'' \<or> c = CHR 0x5C"

definition to_lower :: "char \<Rightarrow> char" where
  "to_lower c =
     (case map_of (zip ''ABCDEFGHIJKLMNOPQRSTUVWXYZ'' ''abcdefghijklmnopqrstuvwxyz'') c of
        None \<Rightarrow> c | Some d \<Rightarrow> d)"

fun compile :: "string \<Rightarrow> atom list option" where
  "compile [] = Some []"
| "compile (c # cs) =
     (if c = CHR ''.'' then map_option (Cons AnyChar) (compile cs)
      else if special c then None
      else map_option (Cons (Lit c)) (compile cs))"

fun atom_matches :: "atom \<Rightarrow> char \<Rightarrow> bool" where
  "atom_matches (Lit a) c = (to_lower a = to_lower c)"
| "atom_matches AnyChar c = (c \<noteq> CHR 0x0A)"

fun match_here :: "atom list \<Rightarrow> string \<Rightarrow> bool" where
  "match_here [] s = True"
| "match_here (a # as) [] = False"
| "match_here (a # as) (c # cs) = (atom_matches a c \<and> match_here as cs)"

text \<open>An unanchored pattern matches when it matches at some position of the text.\<close>

fun match_anywhere :: "atom list \<Rightarrow> string \<Rightarrow> bool" where
  "match_anywhere as [] = match_here as []"
| "match_anywhere as (c # cs) = (match_here as (c # cs) \<or> match_anywhere as cs)"

definition RegExp_i :: "(string \<Rightarrow> regexp option) \<Rightarrow> string \<Rightarrow> regexp option" where
  "RegExp_i ext pat =
     (case compile pat of Some as \<Rightarrow> Some (match_anywhere as) | None \<Rightarrow> ext pat)"

record mongo_filter =
  f_category :: "string option"
  f_priority :: "string option"
  f_completed :: "bool option"
  f_or :: "regexp option"

text \<open>
  \<open>list_filter\<close> is the body of the handler up to the query; \<open>None\<close> is the exception
  \<^verbatim>\<open>new RegExp\<close> throws. \<^verbatim>\<open>completed !== undefined\<close> holds for every supplied value.
\<close>

definition list_filter :: "(string \<Rightarrow> regexp option) \<Rightarrow> query \<Rightarrow> mongo_filter option" where
  "list_filter ext q =
     (let f = \<lparr>f_category = truthy (q_category q),
               f_priority = truthy (q_priority q),
               f_completed = (case q_completed q of None \<Rightarrow> None | Some c \<Rightarrow> Some (c = ''true'')),
               f_or = None\<rparr>
      in case truthy (q_search q) of
           None \<Rightarrow> Some f
         | Some s \<Rightarrow> (case RegExp_i ext s of None \<Rightarrow> None | Some re \<Rightarrow> Some (f\<lparr>f_or := Some re\<rparr>)))"

text \<open>
  What the store does with the filter: equality on \<open>category\<close>, \<open>priority\<close> and
  \<open>completed\<close>; \<^verbatim>\<open>$or\<close> over the pattern on \<open>title\<close>, on \<open>description\<close> (a missing
  description matches no pattern) and on \<open>tags\<close> (an array matches when one element does).
\<close>

definition matches :: "mongo_filter \<Rightarrow> 'a todo_scheme \<Rightarrow> bool" where
  "matches f t \<longleftrightarrow>
     (case f_category f of None \<Rightarrow> True | Some c \<Rightarrow> category t = c) \<and>
     (case f_priority f of None \<Rightarrow> True | Some p \<Rightarrow> priority t = p) \<and>
     (case f_completed f of None \<Rightarrow> True | Some b \<Rightarrow> completed t = b) \<and>
     (case f_or f of None \<Rightarrow> True
      | Some re \<Rightarrow> re (title t) \<or> (case description t of None \<Rightarrow> False | Some d \<Rightarrow> re d)
                    \<or> list_ex re (tags t))"

definition v1_list :: "(string \<Rightarrow> regexp option) \<Rightarrow> query \<Rightarrow> todo list \<Rightarrow> todo response" where
  "v1_list ext q store =
     (case list_filter ext q of
        None \<Rightarrow> Response 500 (FailureDetails ''Server error'')
      | Some f \<Rightarrow> Response 200 (Todos (sort_createdAt_desc (filter (matches f) store))))"

subsection \<open>\<^verbatim>\<open>POST /api/todos\<close>\<close>

text \<open>
  The handler takes seven fields from the body and nothing else; \<^verbatim>\<open>new Todo\<close> fills the
  defaults (\<open>id\<close>, \<open>completed\<close>, the two arrays, and \<open>createdAt\<close> and \<open>updatedAt\<close>, each
  by its own call of \<^verbatim>\<open>Date.now\<close>, in schema order); \<^verbatim>\<open>save\<close> validates and inserts.
  \<open>new_Todo\<close> is \<open>None\<close> for a document \<^verbatim>\<open>save\<close> is bound to reject: one without title,
  priority or category, or with a \<open>dueDate\<close> that does not cast. Every rejection of
  \<^verbatim>\<open>save\<close> lands in the handler's \<^verbatim>\<open>catch\<close> (400).
\<close>

definition new_Todo :: "env \<Rightarrow> body \<Rightarrow> todo option" where
  "new_Todo e b =
     (case (b_title b, b_priority b, b_category b) of
        (Some ti, Some pr, Some ca) \<Rightarrow>
          if date_casts (b_dueDate b)
          then Some \<lparr>todo_id = uuid_todo e, title = ti, description = b_description b,
                completed = False, priority = pr, category = ca,
                tags = (case b_tags b of None \<Rightarrow> [] | Some ts \<Rightarrow> ts),
                dueDate = b_dueDate b,
                subtasks = (case b_subtasks b of None \<Rightarrow> []
                            | Some sbs \<Rightarrow> cast_subtasks (uuid_subtask e) 0 sbs),
                createdAt = date_now1 e, updatedAt = date_now2 e\<rparr>
          else None
      | _ \<Rightarrow> None)"


subsection \<open>\<^verbatim>\<open>PUT /api/todos/:id\<close>\<close>

text \<open>
  \<^verbatim>\<open>{ ...req.body, updatedAt: Date.now() }\<close> is handed to \<^verbatim>\<open>findOneAndUpdate\<close>, which sets
  every schema field the object carries and runs no validator. The \<open>updatedAt\<close> of the body
  is overridden by the clock. Before it queries, \<^verbatim>\<open>findOneAndUpdate\<close> casts the update to
  the schema: with a \<open>dueDate\<close> or \<open>createdAt\<close> that does not cast it raises, nothing is
  looked up or written, and the handler's \<^verbatim>\<open>catch\<close> answers 400.
\<close>

definition update_casts :: "body \<Rightarrow> bool" where
  "update_casts b \<longleftrightarrow> date_casts (b_dueDate b) \<and> date_casts (b_createdAt b)"

definition upd :: "'v option \<Rightarrow> 'v \<Rightarrow> 'v" where
  "upd new old = (case new of None \<Rightarrow> old | Some v \<Rightarrow> v)"

definition apply_update :: "env \<Rightarrow> body \<Rightarrow> 'a todo_scheme \<Rightarrow> 'a todo_scheme" where
  "apply_update e b t =
     t\<lparr>todo_id := upd (b_id b) (todo_id t),
       title := upd (b_title b) (title t),
       description := (case b_description b of None \<Rightarrow> description t | Some d \<Rightarrow> Some d),
       completed := upd (b_completed b) (completed t),
       priority := upd (b_priority b) (priority t),
       category := upd (b_category b) (category t),
       tags := upd (b_tags b) (tags t),
       dueDate := (case b_dueDate b of None \<Rightarrow> dueDate t | Some d \<Rightarrow> Some d),
       subtasks := (case b_subtasks b of None \<Rightarrow> subtasks t
                    | Some sbs \<Rightarrow> cast_subtasks (uuid_subtask e) 0 sbs),
       createdAt := upd (b_createdAt b) (createdAt t),
       updatedAt := date_now1 e\<rparr>"

definition v1_update :: "env \<Rightarrow> string \<Rightarrow> body \<Rightarrow> todo list \<Rightarrow> todo response \<times> todo list" where
  "v1_update e tid b store =
     (if \<not> update_casts b then (Response 400 (FailureDetails ''Validation error''), store)
      else
        (case find_idx (\<lambda>t. todo_id t = tid) store of
           None \<Rightarrow> (Response 404 (Failure ''Todo not found''), store)
         | Some i \<Rightarrow>
             (let t' = apply_update e b (store ! i)
              in (Response 200 (TodoDoc t'), store[i := t']))))"

subsection \<open>\<^verbatim>\<open>DELETE /api/todos/:id\<close>\<close>

definition v1_delete :: "string \<Rightarrow> todo list \<Rightarrow> todo response \<times> todo list" where
  "v1_delete tid store =
     (case find_idx (\<lambda>t. todo_id t = tid) store of
        None \<Rightarrow> (Response 404 (Failure ''Todo not found''), store)
      | Some i \<Rightarrow> (Response 200 (Message ''Todo deleted successfully''), delete_at i store))"

section \<open>Variant 2: \<^verbatim>\<open>src/server.js\<close>\<close>

subsection \<open>Users, tokens and the request\<close>

record user =
  user_oid :: string
  username :: string
  password :: string

text \<open>The payload \<^verbatim>\<open>{ id: user._id, username: user.username }\<close> of a token.\<close>

record identity =
  ident_id :: string
  ident_username :: string

text \<open>
  The hashing, signing and decoding primitives are libraries outside the repository and are
  taken as parameters. \<open>jwt_verify\<close> gives the decoded payload, or \<open>None\<close> when the callback
  of \<^verbatim>\<open>jwt.verify\<close> receives an error (bad signature, expired, malformed).
  \<open>decodeURIComponent\<close> is \<open>None\<close> where the JavaScript function throws.
\<close>

record lib =
  bcrypt_hash :: "string \<Rightarrow> string"
  bcrypt_compare :: "string \<Rightarrow> string \<Rightarrow> bool"
  jwt_sign :: "identity \<Rightarrow> string"
  jwt_verify :: "string \<Rightarrow> identity option"
  decodeURIComponent :: "string \<Rightarrow> string option"

text \<open>
  A request to the todo routes: the HTTP verb; \<open>req_path\<close>, the part of the path that
  follows \<^verbatim>\<open>/api/todos\<close> (Express compares that prefix without regard to letter case), so
  \<^verbatim>\<open>/api/todos/t1\<close> is \<^verbatim>\<open>/t1\<close> and \<^verbatim>\<open>/api/todos\<close> is the empty string; the
  \<^verbatim>\<open>Authorization\<close> header; query; body; and \<^verbatim>\<open>req.user\<close>, which is absent until
  \<open>authenticate\<close> sets it.
\<close>

record request =
  req_method :: verb
  req_path :: string
  authorization :: "string option"
  req_query :: query
  req_body :: body
  req_user :: "identity option"

subsection \<open>\<^verbatim>\<open>authenticate\<close>\<close>

text \<open>\<^verbatim>\<open>s.split(c)\<close> of JavaScript, for a one-character separator.\<close>

fun split_on :: "char \<Rightarrow> string \<Rightarrow> string list" where
  "split_on c [] = [[]]"
| "split_on c (x # xs) =
     (if x = c then [] # split_on c xs
      else (case split_on c xs of [] \<Rightarrow> [[x]] | w # ws \<Rightarrow> (x # w) # ws))"

fun nth_opt :: "'a list \<Rightarrow> nat \<Rightarrow> 'a option" where
  "nth_opt [] n = None"
| "nth_opt (x # xs) 0 = Some x"
| "nth_opt (x # xs) (Suc n) = nth_opt xs n"

text \<open>\<^verbatim>\<open>req.headers.authorization?.split(" ")[1]\<close>\<close>

definition header_token :: "request \<Rightarrow> string option" where
  "header_token req =
     (case authorization req of None \<Rightarrow> None | Some h \<Rightarrow> nth_opt (split_on (CHR '' '') h) 1)"

text \<open>
  \<^verbatim>\<open>!token\<close> holds for \<^verbatim>\<open>undefined\<close> and for the empty string. \<open>next\<close> is the route's
  handler; it is called in the last branch only, with the identity stored in the request.
\<close>

definition authenticate ::
  "lib \<Rightarrow> request \<Rightarrow> (request \<Rightarrow> 's \<Rightarrow> todo2 response \<times> 's) \<Rightarrow> 's \<Rightarrow> todo2 response \<times> 's" where
  "authenticate l req next st =
     (case truthy (header_token req) of
        None \<Rightarrow> (Response 401 (Failure ''Unauthorized''), st)
      | Some token \<Rightarrow>
          (case jwt_verify l token of
             None \<Rightarrow> (Response 403 (Failure ''Invalid token''), st)
           | Some u \<Rightarrow> next (req\<lparr>req_user := Some u\<rparr>) st))"

subsection \<open>\<^verbatim>\<open>POST /api/register\<close> and \<^verbatim>\<open>POST /api/login\<close>\<close>

text \<open>
  The body's \<open>username\<close> is taken to be a string. Its \<open>password\<close> is a string (\<open>Text\<close>),
  absent (\<open>Missing\<close>), or a JSON value that is not a string (\<open>NonString\<close>): \<^verbatim>\<open>bcrypt.hash\<close>
  and \<^verbatim>\<open>bcrypt.compare\<close> reject everything but a string, and the rejection lands in the
  handler's \<^verbatim>\<open>catch\<close>. \<open>oid\<close> is the \<^verbatim>\<open>_id\<close> the store gives the new user. \<^verbatim>\<open>save\<close>
  fails on an empty (\<^verbatim>\<open>required\<close>) or a taken (\<^verbatim>\<open>unique\<close>) username.
\<close>

datatype field = Missing | Text string | NonString

definition register :: "lib \<Rightarrow> string \<Rightarrow> string \<Rightarrow> field \<Rightarrow> user list \<Rightarrow> todo2 response \<times> user list" where
  "register l oid uname pw us =
     (case pw of
        Text p \<Rightarrow>
          (let hashedPassword = bcrypt_hash l p;
               newUser = \<lparr>user_oid = oid, username = uname, password = hashedPassword\<rparr>
           in if required_string (Some uname) \<and> required_string (Some hashedPassword)
                 \<and> uname \<notin> set (map username us)
              then (Response 201 (Message ''User registered successfully''), us @ [newUser])
              else (Response 400 (FailureDetails ''Error registering user''), us))
      | _ \<Rightarrow> (Response 400 (FailureDetails ''Error registering user''), us))"


subsection \<open>The todo handlers\<close>

text \<open>
  Each handler reads \<^verbatim>\<open>req.user.id\<close>. Reading it from a request without \<^verbatim>\<open>req.user\<close> throws
  inside the handler's \<^verbatim>\<open>try\<close>, and the \<^verbatim>\<open>catch\<close> answers with its own status.
\<close>

definition v2_list :: "request \<Rightarrow> todo2 list \<Rightarrow> todo2 response \<times> todo2 list" where
  "v2_list req store =
     (case req_user req of
        None \<Rightarrow> (Response 500 (FailureDetails ''Server error''), store)
      | Some u \<Rightarrow>
          (Response 200 (Todos (sort_createdAt_desc (filter (\<lambda>t. userId t = ident_id u) store))),
           store))"

definition new_Todo2 :: "env \<Rightarrow> string \<Rightarrow> body \<Rightarrow> todo2 option" where
  "new_Todo2 e uid b =
     (case new_Todo e b of None \<Rightarrow> None | Some t \<Rightarrow> Some (todo.extend t \<lparr>userId = uid\<rparr>))"

definition v2_create :: "env \<Rightarrow> request \<Rightarrow> todo2 list \<Rightarrow> todo2 response \<times> todo2 list" where
  "v2_create e req store =
     (case req_user req of
        None \<Rightarrow> (Response 400 (FailureDetails ''Validation error''), store)
      | Some u \<Rightarrow>
          (case new_Todo2 e (ident_id u) (req_body req) of
             None \<Rightarrow> (Response 400 (FailureDetails ''Validation error''), store)
           | Some t \<Rightarrow>
               if valid_todo2 t then (Response 201 (TodoDoc t), store @ [t])
               else (Response 400 (FailureDetails ''Validation error''), store)))"

definition apply_update2 :: "env \<Rightarrow> body \<Rightarrow> todo2 \<Rightarrow> todo2" where
  "apply_update2 e b t = (apply_update e b t)\<lparr>userId := upd (b_userId b) (userId t)\<rparr>"

text \<open>As in variant 1, the update is cast before the store is asked for a match.\<close>

definition v2_update :: "env \<Rightarrow> string \<Rightarrow> request \<Rightarrow> todo2 list \<Rightarrow> todo2 response \<times> todo2 list" where
  "v2_update e tid req store =
     (case req_user req of
        None \<Rightarrow> (Response 400 (FailureDetails ''Validation error''), store)
      | Some u \<Rightarrow>
          if \<not> update_casts (req_body req)
          then (Response 400 (FailureDetails ''Validation error''), store)
          else
            (case find_idx (\<lambda>t. todo_id t = tid \<and> userId t = ident_id u) store of
               None \<Rightarrow> (Response 404 (Failure ''Todo not found''), store)
             | Some i \<Rightarrow>
                 (let t' = apply_update2 e (req_body req) (store ! i)
                  in (Response 200 (TodoDoc t'), store[i := t']))))"

definition v2_delete :: "string \<Rightarrow> request \<Rightarrow> todo2 list \<Rightarrow> todo2 response \<times> todo2 list" where
  "v2_delete tid req store =
     (case req_user req of
        None \<Rightarrow> (Response 500 (FailureDetails ''Server error''), store)
      | Some u \<Rightarrow>
          (case find_idx (\<lambda>t. todo_id t = tid \<and> userId t = ident_id u) store of
             None \<Rightarrow> (Response 404 (Failure ''Todo not found''), store)
           | Some i \<Rightarrow> (Response 200 (Message ''Todo deleted successfully''), delete_at i store)))"

text \<open>\<^verbatim>\<open>GET /api/todos/filter\<close>: \<^verbatim>\<open>priorities ? priorities.split(",") : []\<close> and \<^verbatim>\<open>$in\<close>.\<close>

definition v2_filter :: "request \<Rightarrow> todo2 list \<Rightarrow> todo2 response \<times> todo2 list" where
  "v2_filter req store =
     (case req_user req of
        None \<Rightarrow> (Response 500 (FailureDetails ''Server error''), store)
      | Some u \<Rightarrow>
          (let priorityArray = (case truthy (q_priorities (req_query req)) of
                                  None \<Rightarrow> [] | Some p \<Rightarrow> split_on (CHR '','') p)
           in (Response 200 (Todos (sort_createdAt_desc
                 (filter (\<lambda>t. userId t = ident_id u \<and> priority t \<in> set priorityArray) store))),
               store)))"

subsection \<open>The routes under \<^verbatim>\<open>/api/todos\<close>\<close>

text \<open>
  The five \<^verbatim>\<open>app.VERB("/api/todos...", authenticate, handler)\<close> registrations. Express
  matches a registered path without regard to letter case and lets one slash follow it;
  \<^verbatim>\<open>:id\<close> takes one non-empty segment, which is then decoded. A segment without a percent
  sign decodes to itself, any other is handed to \<^verbatim>\<open>decodeURIComponent\<close>. Express decodes
  the segment as soon as the path fits \<^verbatim>\<open>/api/todos/:id\<close>, before it looks at the verb,
  and a failure goes to the error-handling middleware at the end of the file, which answers
  with \<^verbatim>\<open>err.status\<close> (400) and \<^verbatim>\<open>{ error: err.message }\<close>.
\<close>

datatype route = ListTodos | CreateTodo | UpdateTodo string | DeleteTodo string | FilterTodos

datatype resolution = Matched route | BadParam string | NoRoute

definition strip_slash :: "string list \<Rightarrow> string list" where
  "strip_slash segs = (if 1 < length segs \<and> last segs = [] then butlast segs else segs)"

definition decode_param :: "lib \<Rightarrow> string \<Rightarrow> string option" where
  "decode_param l x = (if CHR ''%'' \<in> set x then decodeURIComponent l x else Some x)"

definition route_of :: "lib \<Rightarrow> verb \<Rightarrow> string \<Rightarrow> resolution" where
  "route_of l v p =
     (case strip_slash (split_on (CHR ''/'') p) of
        [e] \<Rightarrow>
          if e = []
          then (case v of GET \<Rightarrow> Matched ListTodos | POST \<Rightarrow> Matched CreateTodo | _ \<Rightarrow> NoRoute)
          else NoRoute
      | [e, x] \<Rightarrow>
          if e = [] \<and> x \<noteq> []
          then (case decode_param l x of
                  None \<Rightarrow> BadParam x
                | Some tid \<Rightarrow>
                    (case v of
                       PUT \<Rightarrow> Matched (UpdateTodo tid)
                     | DELETE \<Rightarrow> Matched (DeleteTodo tid)
                     | GET \<Rightarrow> if map to_lower x = ''filter'' then Matched FilterTodos else NoRoute
                     | _ \<Rightarrow> NoRoute))
          else NoRoute
      | _ \<Rightarrow> NoRoute)"

fun handler :: "env \<Rightarrow> route \<Rightarrow> request \<Rightarrow> todo2 list \<Rightarrow> todo2 response \<times> todo2 list" where
  "handler e ListTodos = v2_list"
| "handler e CreateTodo = v2_create e"
| "handler e (UpdateTodo tid) = v2_update e tid"
| "handler e (DeleteTodo tid) = v2_delete tid"
| "handler e FilterTodos = v2_filter"

text \<open>
  What variant 2 does with a request whose path starts with \<^verbatim>\<open>/api/todos\<close>: the matching
  route's handler behind \<open>authenticate\<close>; the error middleware's answer when the
  \<^verbatim>\<open>:id\<close> segment does not decode; Express's own 404 page when no route takes the request.
\<close>

definition v2_todos ::
  "lib \<Rightarrow> env \<Rightarrow> request \<Rightarrow> todo2 list \<Rightarrow> todo2 response \<times> todo2 list" where
  "v2_todos l e req store =
     (case route_of l (req_method req) (req_path req) of
        Matched r \<Rightarrow> authenticate l req (handler e r) store
      | BadParam x \<Rightarrow>
          (Response 400 (Failure (''Failed to decode param '' @ [CHR 0x27] @ x @ [CHR 0x27])), store)
      | NoRoute \<Rightarrow> (Response 404 (CannotPage (req_method req) (req_path req)), store))"

section \<open>Predicates used in the statements\<close>



definition unchanged_where_absent :: "body \<Rightarrow> 'a todo_scheme \<Rightarrow> 'a todo_scheme \<Rightarrow> bool" where
  "unchanged_where_absent b t t' \<longleftrightarrow>
     (b_id b = None \<longrightarrow> todo_id t' = todo_id t) \<and>
     (b_title b = None \<longrightarrow> title t' = title t) \<and>
     (b_description b = None \<longrightarrow> description t' = description t) \<and>
     (b_completed b = None \<longrightarrow> completed t' = completed t) \<and>
     (b_priority b = None \<longrightarrow> priority t' = priority t) \<and>
     (b_category b = None \<longrightarrow> category t' = category t) \<and>
     (b_tags b = None \<longrightarrow> tags t' = tags t) \<and>
     (b_dueDate b = None \<longrightarrow> dueDate t' = dueDate t) \<and>
     (b_subtasks b = None \<longrightarrow> subtasks t' = subtasks t) \<and>
     (b_createdAt b = None \<longrightarrow> createdAt t' = createdAt t)"


section \<open>Concrete requests and stores\<close>

definition ex_env :: env where
  "ex_env = \<lparr>date_now1 = 2000, date_now2 = 2000, uuid_todo = ''u-9'', uuid_subtask = (\<lambda>k. ''s-9'')\<rparr>"

definition ex_todo :: todo where
  "ex_todo = \<lparr>todo_id = ''t1'', title = ''Buy milk'', description = None, completed = False,
     priority = ''low'', category = ''errand'', tags = [], dueDate = None, subtasks = [],
     createdAt = 1000, updatedAt = 1000\<rparr>"

definition alice :: identity where
  "alice = \<lparr>ident_id = ''u-alice'', ident_username = ''alice''\<rparr>"

definition ex_lib :: lib where
  "ex_lib = \<lparr>bcrypt_hash = (\<lambda>pw. ''#'' @ pw),
     bcrypt_compare = (\<lambda>pw h. h = ''#'' @ pw),
     jwt_sign = (\<lambda>u. ''tok-'' @ ident_username u),
     jwt_verify = (\<lambda>tok. if tok = ''tok-alice'' then Some alice else None),
     decodeURIComponent = (\<lambda>s. None)\<rparr>"

definition bob_todo :: todo2 where
  "bob_todo = \<lparr>todo_id = ''t1'', title = ''Pay rent'', description = None, completed = False,
     priority = ''high'', category = ''home'', tags = [], dueDate = None, subtasks = [],
     createdAt = 1000, updatedAt = 1000, userId = ''u-bob''\<rparr>"

definition ex_request :: request where
  "ex_request = \<lparr>req_method = GET, req_path = [], authorization = Some ''Bearer tok-alice'',
     req_query = empty_query, req_body = empty_body, req_user = None\<rparr>"

definition alice_work :: todo2 where
  "alice_work = \<lparr>todo_id = ''t2'', title = ''Write report'', description = None, completed = False,
     priority = ''high'', category = ''work'', tags = [], dueDate = None, subtasks = [],
     createdAt = 1000, updatedAt = 1000, userId = ''u-alice''\<rparr>"

definition alice_home :: todo2 where
  "alice_home = \<lparr>todo_id = ''t3'', title = ''Water plants'', description = None, completed = True,
     priority = ''low'', category = ''home'', tags = [], dueDate = None, subtasks = [],
     createdAt = 3000, updatedAt = 3000, userId = ''u-alice''\<rparr>"

definition tick_env :: env where
  "tick_env = \<lparr>date_now1 = 1000, date_now2 = 1001, uuid_todo = ''t1'', uuid_subtask = (\<lambda>k. ''s-1'')\<rparr>"




definition done_todo :: todo where
  "done_todo = ex_todo\<lparr>todo_id := ''t2'', title := ''Call mum'', completed := True\<rparr>"

section \<open>Auxiliary facts\<close>

lemma find_idx_None: "find_idx P xs = None \<longleftrightarrow> (\<forall>x\<in>set xs. \<not> P x)"
  by (induction xs) (auto split: option.splits)



lemma find_idx_removeAll_None:
  "find_idx P xs = None \<Longrightarrow> find_idx P (removeAll t xs) = None"
  by (simp add: find_idx_None)

lemma sort_createdAt_desc_mset: "mset (sort_createdAt_desc ts) = mset ts"
  by (simp add: sort_createdAt_desc_def)

lemma sort_createdAt_desc_sorted:
  "sorted_wrt (\<lambda>a b. createdAt b \<le> createdAt a) (sort_createdAt_desc ts)"
proof -
  have "sorted (map (\<lambda>t. - createdAt t) (sort_key (\<lambda>t. - createdAt t) ts))"
    by (rule sorted_sort_key)
  then show ?thesis
    by (simp add: sort_createdAt_desc_def sorted_map)
qed

lemma filter_sort_createdAt_desc:
  "filter P (sort_createdAt_desc ts) = sort_createdAt_desc (filter P ts)"
  by (simp add: sort_createdAt_desc_def filter_sort)



lemma apply_update_frame: "unchanged_where_absent b t (apply_update e b t)"
  by (simp add: unchanged_where_absent_def apply_update_def upd_def)

lemma apply_update_updatedAt: "updatedAt (apply_update e b t) = date_now1 e"
  by (simp add: apply_update_def)

lemma apply_update2_frame:
  "unchanged_where_absent b t (apply_update2 e b t) \<and>
   (b_userId b = None \<longrightarrow> userId (apply_update2 e b t) = userId t)"
  by (simp add: unchanged_where_absent_def apply_update2_def apply_update_def upd_def)

lemma apply_update2_updatedAt: "updatedAt (apply_update2 e b t) = date_now1 e"
  by (simp add: apply_update2_def apply_update_def)




text \<open>What \<^verbatim>\<open>split\<close> does, said without \<open>split_on\<close>.\<close>

lemma split_on_not_Nil: "split_on c s \<noteq> []"
  by (induction s) (auto split: list.splits)

lemma split_on_first: "nth_opt (split_on c s) 0 = Some (takeWhile (\<lambda>x. x \<noteq> c) s)"
  by (induction s) (auto split: list.splits)

lemma split_on_no_separator: "c \<notin> set s \<Longrightarrow> split_on c s = [s]"
  by (induction s) auto

lemma split_on_second:
  "c \<notin> set a \<Longrightarrow> nth_opt (split_on c (a @ c # b)) 1 = Some (takeWhile (\<lambda>x. x \<noteq> c) b)"
proof (induction a)
  case Nil
  then show ?case using split_on_first[of c b] by simp
next
  case (Cons x a)
  then show ?case by (auto split: list.splits)
qed

lemma split_on_append:
  "split_on c (a @ c # b) = split_on c a @ split_on c b"
proof (induction a)
  case Nil
  then show ?case by simp
next
  case (Cons x a)
  then show ?case
    using split_on_not_Nil[of c a] by (auto split: list.splits)
qed

lemma header_token_absent: "authorization req = None \<Longrightarrow> truthy (header_token req) = None"
  by (simp add: header_token_def truthy_def)

lemma header_token_one_word:
  "authorization req = Some h \<Longrightarrow> CHR '' '' \<notin> set h \<Longrightarrow> truthy (header_token req) = None"
  by (simp add: header_token_def truthy_def split_on_no_separator)

lemma header_token_second_word:
  "authorization req = Some (scheme @ CHR '' '' # rest) \<Longrightarrow> CHR '' '' \<notin> set scheme \<Longrightarrow>
   truthy (header_token req) = truthy (Some (takeWhile (\<lambda>c. c \<noteq> CHR '' '') rest))"
  using split_on_second[of "CHR '' ''" scheme rest] by (simp add: header_token_def)

lemma toggle_path_no_route: "route_of l v (CHR ''/'' # seg @ ''/toggle'') = NoRoute"
proof -
  obtain s ss where s: "split_on (CHR ''/'') seg = s # ss"
    using split_on_not_Nil[of "CHR ''/''" seg] by (cases "split_on (CHR ''/'') seg") auto
  have "split_on (CHR ''/'') (CHR ''/'' # seg @ ''/toggle'') = [] # s # ss @ [''toggle'']"
    using split_on_append[of "CHR ''/''" seg "''toggle''"] s by simp
  then show ?thesis
    by (cases ss) (simp_all add: route_of_def strip_slash_def)
qed

section \<open>Properties of the handlers\<close>

subsection \<open>C1: another user's todo is not found\<close>

text \<open>
  C1, as the code has it. Let \<open>A\<close> be a caller whose token verifies and \<open>t\<close> a stored todo
  owned by someone else, whose id no todo of \<open>A\<close> carries.
  An Update request of \<open>A\<close> naming the id of \<open>t\<close> is answered 404 \<^verbatim>\<open>Todo not found\<close>
  when its body casts; whatever the body, the answer is not 403, the store stays as it was,
  and the answer is the one the store without \<open>t\<close> gives.
  A Delete request naming the id is answered 404 \<^verbatim>\<open>Todo not found\<close>, the store stays as it
  was, and the store without \<open>t\<close> gives the same answer.
  A Toggle request (\<^verbatim>\<open>PATCH /api/todos/:id/toggle\<close>) finds no route in variant 2: Express
  answers 404, the store stays as it was, and the store without \<open>t\<close> gives the same answer.
\<close>
theorem other_users_todo_not_found:
  assumes tok: "truthy (header_token req) = Some tok" and ver: "jwt_verify l tok = Some A"
    and t: "t \<in> set store" and own: "userId t \<noteq> ident_id A"
    and uniq: "\<forall>x\<in>set store. userId x = ident_id A \<longrightarrow> todo_id x \<noteq> todo_id t"
  shows "(route_of l (req_method req) (req_path req) = Matched (UpdateTodo (todo_id t)) \<longrightarrow>
            (update_casts (req_body req) \<longrightarrow>
               v2_todos l e req store = (Response 404 (Failure ''Todo not found''), store)) \<and>
            status (fst (v2_todos l e req store)) \<noteq> 403 \<and>
            snd (v2_todos l e req store) = store \<and>
            fst (v2_todos l e req (removeAll t store)) = fst (v2_todos l e req store)) \<and>
         (route_of l (req_method req) (req_path req) = Matched (DeleteTodo (todo_id t)) \<longrightarrow>
            v2_todos l e req store = (Response 404 (Failure ''Todo not found''), store) \<and>
            fst (v2_todos l e req (removeAll t store)) = Response 404 (Failure ''Todo not found'')) \<and>
         (req_method req = PATCH \<and> req_path req = CHR ''/'' # todo_id t @ ''/toggle'' \<longrightarrow>
            v2_todos l e req store = (Response 404 (CannotPage PATCH (req_path req)), store) \<and>
            fst (v2_todos l e req (removeAll t store)) = Response 404 (CannotPage PATCH (req_path req)))"
proof -
  have none: "find_idx (\<lambda>x. todo_id x = todo_id t \<and> userId x = ident_id A) store = None"
    using uniq by (auto simp: find_idx_None)
  have none': "find_idx (\<lambda>x. todo_id x = todo_id t \<and> userId x = ident_id A) (removeAll t store) = None"
    by (rule find_idx_removeAll_None[OF none])
  have upd: "route_of l (req_method req) (req_path req) = Matched (UpdateTodo (todo_id t)) \<longrightarrow>
            (update_casts (req_body req) \<longrightarrow>
               v2_todos l e req store = (Response 404 (Failure ''Todo not found''), store)) \<and>
            status (fst (v2_todos l e req store)) \<noteq> 403 \<and>
            snd (v2_todos l e req store) = store \<and>
            fst (v2_todos l e req (removeAll t store)) = fst (v2_todos l e req store)"
    using none none' tok ver by (simp add: v2_todos_def authenticate_def v2_update_def)
  have del: "route_of l (req_method req) (req_path req) = Matched (DeleteTodo (todo_id t)) \<longrightarrow>
            v2_todos l e req store = (Response 404 (Failure ''Todo not found''), store) \<and>
            fst (v2_todos l e req (removeAll t store)) = Response 404 (Failure ''Todo not found'')"
    using none none' tok ver by (simp add: v2_todos_def authenticate_def v2_delete_def)
  have tog: "req_method req = PATCH \<and> req_path req = CHR ''/'' # todo_id t @ ''/toggle'' \<longrightarrow>
            v2_todos l e req store = (Response 404 (CannotPage PATCH (req_path req)), store) \<and>
            fst (v2_todos l e req (removeAll t store)) = Response 404 (CannotPage PATCH (req_path req))"
    using toggle_path_no_route[of l PATCH "todo_id t"] by (simp add: v2_todos_def)
  show ?thesis using upd del tog by blast
qed

text \<open>
  C1, an instance: Alice's token, Bob's todo \<^verbatim>\<open>t1\<close>; \<^verbatim>\<open>PUT\<close>, \<^verbatim>\<open>DELETE\<close> (with a trailing
  slash) and \<^verbatim>\<open>PATCH .../toggle\<close>.
\<close>
theorem other_users_todo_not_found_witness:
  "truthy (header_token ex_request) = Some ''tok-alice'' \<and>
   jwt_verify ex_lib ''tok-alice'' = Some alice \<and>
   bob_todo \<in> set [bob_todo] \<and> userId bob_todo \<noteq> ident_id alice \<and>
   filter (\<lambda>x. userId x = ident_id alice \<and> todo_id x = todo_id bob_todo) [bob_todo] = [] \<and>
   v2_todos ex_lib ex_env (ex_request\<lparr>req_method := PUT, req_path := ''/t1''\<rparr>) [bob_todo]
     = (Response 404 (Failure ''Todo not found''), [bob_todo]) \<and>
   v2_todos ex_lib ex_env (ex_request\<lparr>req_method := DELETE, req_path := ''/t1/''\<rparr>) [bob_todo]
     = (Response 404 (Failure ''Todo not found''), [bob_todo]) \<and>
   v2_todos ex_lib ex_env (ex_request\<lparr>req_method := PATCH, req_path := ''/t1/toggle''\<rparr>) [bob_todo]
     = (Response 404 (CannotPage PATCH ''/t1/toggle''), [bob_todo]) \<and>
   fst (v2_todos ex_lib ex_env (ex_request\<lparr>req_method := PUT, req_path := ''/t1''\<rparr>) [])
     = Response 404 (Failure ''Todo not found'')"
  using other_users_todo_not_found[of "ex_request\<lparr>req_method := PUT, req_path := ''/t1''\<rparr>"
      "''tok-alice''" ex_lib alice bob_todo "[bob_todo]" ex_env]
    other_users_todo_not_found[of "ex_request\<lparr>req_method := DELETE, req_path := ''/t1/''\<rparr>"
      "''tok-alice''" ex_lib alice bob_todo "[bob_todo]" ex_env]
    other_users_todo_not_found[of "ex_request\<lparr>req_method := PATCH, req_path := ''/t1/toggle''\<rparr>"
      "''tok-alice''" ex_lib alice bob_todo "[bob_todo]" ex_env]
  by (simp add: ex_request_def header_token_def truthy_def ex_lib_def alice_def bob_todo_def
      route_of_def strip_slash_def decode_param_def update_casts_def date_casts_def empty_body_def)

text \<open>
  C1 as stated fails in two ways. Alice's \<^verbatim>\<open>PUT /api/todos/t1\<close> on Bob's todo with a
  \<open>dueDate\<close> that is no date is answered 400, not 404. And once Alice has given a todo of
  her own the id \<^verbatim>\<open>t1\<close> (a \<^verbatim>\<open>PUT /api/todos/t2\<close> with body \<^verbatim>\<open>{ id: "t1" }\<close>), her
  \<^verbatim>\<open>PUT /api/todos/t1\<close> is answered 200: it changes her todo and leaves Bob's as it was.
\<close>
theorem update_on_others_todo_not_always_404:
  "v2_todos ex_lib ex_env
      (ex_request\<lparr>req_method := PUT, req_path := ''/t1'',
         req_body := empty_body\<lparr>b_dueDate := Some 8640000000000001\<rparr>\<rparr>) [bob_todo]
     = (Response 400 (FailureDetails ''Validation error''), [bob_todo]) \<and>
   v2_todos ex_lib ex_env
      (ex_request\<lparr>req_method := PUT, req_path := ''/t2'',
         req_body := empty_body\<lparr>b_id := Some ''t1''\<rparr>\<rparr>) [bob_todo, alice_work]
     = (Response 200 (TodoDoc (alice_work\<lparr>todo_id := ''t1'', updatedAt := 2000\<rparr>)),
        [bob_todo, alice_work\<lparr>todo_id := ''t1'', updatedAt := 2000\<rparr>]) \<and>
   v2_todos ex_lib ex_env
      (ex_request\<lparr>req_method := PUT, req_path := ''/t1'',
         req_body := empty_body\<lparr>b_completed := Some True\<rparr>\<rparr>)
      [bob_todo, alice_work\<lparr>todo_id := ''t1'', updatedAt := 2000\<rparr>]
     = (Response 200 (TodoDoc (alice_work\<lparr>todo_id := ''t1'', completed := True, updatedAt := 2000\<rparr>)),
        [bob_todo, alice_work\<lparr>todo_id := ''t1'', completed := True, updatedAt := 2000\<rparr>])"
  by (simp add: v2_todos_def ex_request_def authenticate_def header_token_def truthy_def
      ex_lib_def v2_update_def alice_def alice_work_def bob_todo_def apply_update2_def
      apply_update_def upd_def empty_body_def ex_env_def Let_def
      route_of_def strip_slash_def decode_param_def update_casts_def date_casts_def
      cast_date_def date_limit_def)

subsection \<open>C2: List in variant 2\<close>

text \<open>
  C2, as the code has it. For a caller \<open>A\<close> whose token verifies, \<^verbatim>\<open>GET /api/todos\<close> of
  variant 2 answers 200 with exactly the stored todos whose \<open>userId\<close> is the caller's id
  (as a multiset: each as often as stored), ordered by \<open>createdAt\<close> descending; the query
  parameters have no effect on the answer.
\<close>
theorem v2_list_owner_only:
  assumes tok: "truthy (header_token req) = Some tok" and ver: "jwt_verify l tok = Some A"
  shows "\<exists>L. v2_todos l e (req\<lparr>req_method := GET, req_path := [], req_query := q\<rparr>) store
               = (Response 200 (Todos L), store) \<and>
             mset L = mset (filter (\<lambda>t. userId t = ident_id A) store) \<and>
             sorted_wrt (\<lambda>a b. createdAt b \<le> createdAt a) L \<and>
             v2_todos l e (req\<lparr>req_method := GET, req_path := [], req_query := q\<rparr>) store
               = v2_todos l e (req\<lparr>req_method := GET, req_path := [], req_query := empty_query\<rparr>) store"
proof -
  have tok': "\<And>q. truthy (header_token (req\<lparr>req_method := GET, req_path := [], req_query := q\<rparr>)) = Some tok"
    using tok by (simp add: header_token_def)
  have route: "route_of l GET [] = Matched ListTodos"
    by (simp add: route_of_def strip_slash_def)
  let ?L = "sort_createdAt_desc (filter (\<lambda>t. userId t = ident_id A) store)"
  have run: "\<And>q. v2_todos l e (req\<lparr>req_method := GET, req_path := [], req_query := q\<rparr>) store
      = (Response 200 (Todos ?L), store)"
    using tok' ver route by (simp add: v2_todos_def authenticate_def v2_list_def)
  show ?thesis
    using run sort_createdAt_desc_mset[of "filter (\<lambda>t. userId t = ident_id A) store"]
      sort_createdAt_desc_sorted[of "filter (\<lambda>t. userId t = ident_id A) store"]
    by simp
qed

text \<open>C2, an instance: Alice lists a store that holds two todos of hers and one of Bob's.\<close>
theorem v2_list_owner_only_witness:
  "truthy (header_token ex_request) = Some ''tok-alice'' \<and>
   jwt_verify ex_lib ''tok-alice'' = Some alice \<and>
   (\<exists>L. v2_todos ex_lib ex_env (ex_request\<lparr>req_method := GET, req_path := [], req_query := empty_query\<rparr>)
            [alice_work, bob_todo, alice_home]
          = (Response 200 (Todos L), [alice_work, bob_todo, alice_home]) \<and>
        mset L = mset (filter (\<lambda>t. userId t = ident_id alice) [alice_work, bob_todo, alice_home]) \<and>
        sorted_wrt (\<lambda>a b. createdAt b \<le> createdAt a) L)"
  using v2_list_owner_only[of ex_request "''tok-alice''" ex_lib alice ex_env empty_query
      "[alice_work, bob_todo, alice_home]"]
  by (simp add: ex_request_def header_token_def truthy_def ex_lib_def)

text \<open>
  C2 as stated fails: with \<^verbatim>\<open>?category=work\<close> the answer still contains Alice's todo of
  category \<^verbatim>\<open>home\<close>.
\<close>
theorem v2_list_ignores_category_filter:
  "v2_todos ex_lib ex_env
      (ex_request\<lparr>req_query := empty_query\<lparr>q_category := Some ''work''\<rparr>\<rparr>)
      [alice_work, bob_todo, alice_home]
     = (Response 200 (Todos [alice_home, alice_work]), [alice_work, bob_todo, alice_home]) \<and>
   category alice_home \<noteq> ''work''"
  by (simp add: v2_todos_def ex_request_def authenticate_def header_token_def truthy_def
      ex_lib_def v2_list_def alice_def sort_createdAt_desc_def alice_work_def bob_todo_def
      alice_home_def route_of_def strip_slash_def)

subsection \<open>C3: \<open>id\<close> and \<open>userId\<close> under Update\<close>

text \<open>
  C3 says that an Update whose body carries \<open>id\<close> or \<open>userId\<close> leaves those fields at their
  original values. The code does otherwise. In variant 1, \<^verbatim>\<open>PUT /api/todos/t1\<close> with body
  \<^verbatim>\<open>{ id: "t7" }\<close> stores the todo under the id \<^verbatim>\<open>t7\<close>. In variant 2, Alice's
  \<^verbatim>\<open>PUT /api/todos/t2\<close> with body \<^verbatim>\<open>{ id: "t7", userId: "u-bob" }\<close> renames her todo and
  hands it to Bob.
\<close>
theorem update_overwrites_id_and_owner:
  "v1_update ex_env ''t1'' (empty_body\<lparr>b_id := Some ''t7''\<rparr>) [ex_todo]
     = (Response 200 (TodoDoc (ex_todo\<lparr>todo_id := ''t7'', updatedAt := 2000\<rparr>)),
        [ex_todo\<lparr>todo_id := ''t7'', updatedAt := 2000\<rparr>]) \<and>
   v2_todos ex_lib ex_env
      (ex_request\<lparr>req_method := PUT, req_path := ''/t2'',
         req_body := empty_body\<lparr>b_id := Some ''t7'', b_userId := Some ''u-bob''\<rparr>\<rparr>)
      [alice_work]
     = (Response 200 (TodoDoc (alice_work\<lparr>todo_id := ''t7'', updatedAt := 2000, userId := ''u-bob''\<rparr>)),
        [alice_work\<lparr>todo_id := ''t7'', updatedAt := 2000, userId := ''u-bob''\<rparr>])"
  by (simp add: v1_update_def ex_todo_def ex_env_def empty_body_def apply_update_def upd_def
      v2_todos_def ex_request_def authenticate_def header_token_def truthy_def
      ex_lib_def v2_update_def alice_def alice_work_def apply_update2_def Let_def
      route_of_def strip_slash_def decode_param_def update_casts_def date_casts_def)

subsection \<open>C4: Toggle\<close>




subsection \<open>C5: Create\<close>




subsection \<open>C6: Update refreshes \<open>updatedAt\<close> and keeps the rest\<close>

text \<open>
  C6, as the code has it. In both variants an Update is successful (answered 200) exactly
  when its body casts and the filter finds a document. A successful Update answers with the
  updated record, stored in place of the old one: its \<open>updatedAt\<close> is the reading of the
  clock, which is above the prior value whenever the clock reads later than that value;
  every field the body does not carry keeps its prior value.
\<close>
theorem update_sets_updatedAt_and_keeps_rest:
  "(status (fst (v1_update e tid b store)) = 200 \<longrightarrow>
      (\<exists>i t'. find_idx (\<lambda>t. todo_id t = tid) store = Some i \<and>
            v1_update e tid b store = (Response 200 (TodoDoc t'), store[i := t']) \<and>
            updatedAt t' = date_now1 e \<and>
            (updatedAt (store ! i) < date_now1 e \<longrightarrow> updatedAt (store ! i) < updatedAt t') \<and>
            unchanged_where_absent b (store ! i) t')) \<and>
   (update_casts b \<and> find_idx (\<lambda>t. todo_id t = tid) store = Some i \<longrightarrow>
      status (fst (v1_update e tid b store)) = 200) \<and>
   (status (fst (v2_update e tid req store2)) = 200 \<longrightarrow>
      (\<exists>A j t'. req_user req = Some A \<and>
            find_idx (\<lambda>t. todo_id t = tid \<and> userId t = ident_id A) store2 = Some j \<and>
            v2_update e tid req store2 = (Response 200 (TodoDoc t'), store2[j := t']) \<and>
            updatedAt t' = date_now1 e \<and>
            (updatedAt (store2 ! j) < date_now1 e \<longrightarrow> updatedAt (store2 ! j) < updatedAt t') \<and>
            unchanged_where_absent (req_body req) (store2 ! j) t' \<and>
            (b_userId (req_body req) = None \<longrightarrow> userId t' = userId (store2 ! j)))) \<and>
   (req_user req = Some A \<and> update_casts (req_body req) \<and>
    find_idx (\<lambda>t. todo_id t = tid \<and> userId t = ident_id A) store2 = Some j \<longrightarrow>
      status (fst (v2_update e tid req store2)) = 200)"
proof (intro conjI impI)
  assume ok: "status (fst (v1_update e tid b store)) = 200"
  then obtain i where f: "find_idx (\<lambda>t. todo_id t = tid) store = Some i" and c: "update_casts b"
    by (auto simp: v1_update_def split: if_splits option.splits)
  show "\<exists>i t'. find_idx (\<lambda>t. todo_id t = tid) store = Some i \<and>
            v1_update e tid b store = (Response 200 (TodoDoc t'), store[i := t']) \<and>
            updatedAt t' = date_now1 e \<and>
            (updatedAt (store ! i) < date_now1 e \<longrightarrow> updatedAt (store ! i) < updatedAt t') \<and>
            unchanged_where_absent b (store ! i) t'"
    apply (rule exI[of _ i])
    apply (rule exI[of _ "apply_update e b (store ! i)"])
    using f c by (simp add: v1_update_def Let_def apply_update_frame apply_update_updatedAt)
next
  assume "update_casts b \<and> find_idx (\<lambda>t. todo_id t = tid) store = Some i"
  then show "status (fst (v1_update e tid b store)) = 200"
    by (simp add: v1_update_def Let_def)
next
  assume ok: "status (fst (v2_update e tid req store2)) = 200"
  then obtain A j where u: "req_user req = Some A" and c: "update_casts (req_body req)"
    and f: "find_idx (\<lambda>t. todo_id t = tid \<and> userId t = ident_id A) store2 = Some j"
    by (auto simp: v2_update_def split: if_splits option.splits)
  show "\<exists>A j t'. req_user req = Some A \<and>
            find_idx (\<lambda>t. todo_id t = tid \<and> userId t = ident_id A) store2 = Some j \<and>
            v2_update e tid req store2 = (Response 200 (TodoDoc t'), store2[j := t']) \<and>
            updatedAt t' = date_now1 e \<and>
            (updatedAt (store2 ! j) < date_now1 e \<longrightarrow> updatedAt (store2 ! j) < updatedAt t') \<and>
            unchanged_where_absent (req_body req) (store2 ! j) t' \<and>
            (b_userId (req_body req) = None \<longrightarrow> userId t' = userId (store2 ! j))"
    apply (rule exI[of _ A])
    apply (rule exI[of _ j])
    apply (rule exI[of _ "apply_update2 e (req_body req) (store2 ! j)"])
    using u c f by (simp add: v2_update_def Let_def apply_update2_frame apply_update2_updatedAt)
next
  assume "req_user req = Some A \<and> update_casts (req_body req) \<and>
    find_idx (\<lambda>t. todo_id t = tid \<and> userId t = ident_id A) store2 = Some j"
  then show "status (fst (v2_update e tid req store2)) = 200"
    by (simp add: v2_update_def Let_def)
qed

text \<open>
  C6, an instance: changing the title of \<^verbatim>\<open>t1\<close> at time 2000, in variant 1 and, by its
  owner, in variant 2.
\<close>
theorem update_sets_updatedAt_and_keeps_rest_witness:
  "status (fst (v1_update ex_env ''t1'' (empty_body\<lparr>b_title := Some ''Buy oat milk''\<rparr>) [ex_todo])) = 200 \<and>
   (\<exists>t'. v1_update ex_env ''t1'' (empty_body\<lparr>b_title := Some ''Buy oat milk''\<rparr>) [ex_todo]
            = (Response 200 (TodoDoc t'), [t']) \<and>
         updatedAt t' = 2000 \<and> updatedAt ex_todo < updatedAt t' \<and>
         title t' = ''Buy oat milk'' \<and> category t' = category ex_todo \<and>
         todo_id t' = todo_id ex_todo \<and> createdAt t' = createdAt ex_todo) \<and>
   status (fst (v2_update ex_env ''t2''
      (ex_request\<lparr>req_user := Some alice, req_body := empty_body\<lparr>b_title := Some ''Write memo''\<rparr>\<rparr>)
      [alice_work])) = 200 \<and>
   (\<exists>t'. v2_update ex_env ''t2''
              (ex_request\<lparr>req_user := Some alice, req_body := empty_body\<lparr>b_title := Some ''Write memo''\<rparr>\<rparr>)
              [alice_work]
            = (Response 200 (TodoDoc t'), [t']) \<and>
         updatedAt t' = 2000 \<and> userId t' = ''u-alice'' \<and> category t' = ''work'')"
  using update_sets_updatedAt_and_keeps_rest[of ex_env "''t1''"
      "empty_body\<lparr>b_title := Some ''Buy oat milk''\<rparr>" "[ex_todo]" 0
      "ex_request\<lparr>req_user := Some alice, req_body := empty_body\<lparr>b_title := Some ''Write memo''\<rparr>\<rparr>"
      "[alice_work]" alice 0]
    update_sets_updatedAt_and_keeps_rest[of ex_env "''t2''"
      "empty_body\<lparr>b_title := Some ''Buy oat milk''\<rparr>" "[ex_todo]" 0
      "ex_request\<lparr>req_user := Some alice, req_body := empty_body\<lparr>b_title := Some ''Write memo''\<rparr>\<rparr>"
      "[alice_work]" alice 0]
  by (simp add: ex_todo_def alice_work_def alice_def ex_env_def ex_request_def empty_body_def
      unchanged_where_absent_def update_casts_def date_casts_def
      v1_update_def v2_update_def Let_def apply_update_def apply_update2_def upd_def)

text \<open>
  C6 as stated fails on the strict increase: an Update with an empty body, handled while the
  clock still reads the todo's \<open>updatedAt\<close> (1000), leaves the record as it was.
\<close>
theorem update_same_millisecond:
  "v1_update tick_env ''t1'' empty_body [ex_todo] = (Response 200 (TodoDoc ex_todo), [ex_todo]) \<and>
   updatedAt ex_todo = date_now1 tick_env"
  by (simp add: v1_update_def Let_def apply_update_def upd_def empty_body_def tick_env_def ex_todo_def
      update_casts_def date_casts_def)

subsection \<open>C7: the two ways a login fails\<close>




subsection \<open>C8: the gate in front of the todo routes\<close>

text \<open>
  C8, as the code has it. For every request that one of the five todo routes of variant 2
  takes, the gate reads the \<^verbatim>\<open>Authorization\<close> header as follows; the word before the first
  space (the scheme) is not looked at.
  No header, a header without a space, or a header with nothing between its first space and
  the next (or the end): 401, and the handler is not called, whatever it is.
  Otherwise the token is what stands between the first space and the next (or the end). If
  \<^verbatim>\<open>jwt.verify\<close> rejects it: 403, and the handler is not called, whatever it is. If not, the
  route's handler runs on the request with the decoded identity in \<^verbatim>\<open>req.user\<close>.
\<close>
theorem authenticate_gate:
  assumes r: "route_of l (req_method req) (req_path req) = Matched r"
  shows "(authorization req = None \<or>
          (\<exists>h. authorization req = Some h \<and> CHR '' '' \<notin> set h) \<or>
          (\<exists>scheme rest. authorization req = Some (scheme @ CHR '' '' # rest) \<and>
             CHR '' '' \<notin> set scheme \<and> takeWhile (\<lambda>c. c \<noteq> CHR '' '') rest = [])
          \<longrightarrow>
            v2_todos l e req store = (Response 401 (Failure ''Unauthorized''), store) \<and>
            (\<forall>next. authenticate l req next store = (Response 401 (Failure ''Unauthorized''), store))) \<and>
         (\<forall>scheme rest tok.
            authorization req = Some (scheme @ CHR '' '' # rest) \<and> CHR '' '' \<notin> set scheme \<and>
            takeWhile (\<lambda>c. c \<noteq> CHR '' '') rest = tok \<and> tok \<noteq> [] \<and> jwt_verify l tok = None
          \<longrightarrow>
            v2_todos l e req store = (Response 403 (Failure ''Invalid token''), store) \<and>
            (\<forall>next. authenticate l req next store = (Response 403 (Failure ''Invalid token''), store))) \<and>
         (\<forall>scheme rest tok u.
            authorization req = Some (scheme @ CHR '' '' # rest) \<and> CHR '' '' \<notin> set scheme \<and>
            takeWhile (\<lambda>c. c \<noteq> CHR '' '') rest = tok \<and> tok \<noteq> [] \<and> jwt_verify l tok = Some u
          \<longrightarrow>
            v2_todos l e req store = handler e r (req\<lparr>req_user := Some u\<rparr>) store \<and>
            (\<forall>next. authenticate l req next store = next (req\<lparr>req_user := Some u\<rparr>) store))"
proof (intro conjI allI impI)
  assume "authorization req = None \<or>
          (\<exists>h. authorization req = Some h \<and> CHR '' '' \<notin> set h) \<or>
          (\<exists>scheme rest. authorization req = Some (scheme @ CHR '' '' # rest) \<and>
             CHR '' '' \<notin> set scheme \<and> takeWhile (\<lambda>c. c \<noteq> CHR '' '') rest = [])"
  then have none: "truthy (header_token req) = None"
  proof (elim disjE exE conjE)
    assume "authorization req = None"
    then show ?thesis by (rule header_token_absent)
  next
    fix h assume "authorization req = Some h" "CHR '' '' \<notin> set h"
    then show ?thesis by (rule header_token_one_word)
  next
    fix scheme rest
    assume "authorization req = Some (scheme @ CHR '' '' # rest)" "CHR '' '' \<notin> set scheme"
      "takeWhile (\<lambda>c. c \<noteq> CHR '' '') rest = []"
    then show ?thesis
      using header_token_second_word[of req scheme rest] by (simp add: truthy_def)
  qed
  show "v2_todos l e req store = (Response 401 (Failure ''Unauthorized''), store)"
    using none r by (simp add: v2_todos_def authenticate_def)
  show "\<And>next. authenticate l req next store = (Response 401 (Failure ''Unauthorized''), store)"
    using none by (simp add: authenticate_def)
next
  fix scheme rest tok
  assume a: "authorization req = Some (scheme @ CHR '' '' # rest) \<and> CHR '' '' \<notin> set scheme \<and>
            takeWhile (\<lambda>c. c \<noteq> CHR '' '') rest = tok \<and> tok \<noteq> [] \<and> jwt_verify l tok = None"
  then have some: "truthy (header_token req) = Some tok"
    using header_token_second_word[of req scheme rest] by (simp add: truthy_def)
  show "v2_todos l e req store = (Response 403 (Failure ''Invalid token''), store)"
    using some a r by (simp add: v2_todos_def authenticate_def)
  show "\<And>next. authenticate l req next store = (Response 403 (Failure ''Invalid token''), store)"
    using some a by (simp add: authenticate_def)
next
  fix scheme rest tok u
  assume a: "authorization req = Some (scheme @ CHR '' '' # rest) \<and> CHR '' '' \<notin> set scheme \<and>
            takeWhile (\<lambda>c. c \<noteq> CHR '' '') rest = tok \<and> tok \<noteq> [] \<and> jwt_verify l tok = Some u"
  then have some: "truthy (header_token req) = Some tok"
    using header_token_second_word[of req scheme rest] by (simp add: truthy_def)
  show "v2_todos l e req store = handler e r (req\<lparr>req_user := Some u\<rparr>) store"
    using some a r by (simp add: v2_todos_def authenticate_def)
  show "\<And>next. authenticate l req next store = next (req\<lparr>req_user := Some u\<rparr>) store"
    using some a by (simp add: authenticate_def)
qed

text \<open>
  C8, instances on \<^verbatim>\<open>GET /api/todos/FILTER/\<close>: no header; \<^verbatim>\<open>Bearer\<close> alone; a stale token;
  Alice's token.
\<close>
theorem authenticate_gate_witness:
  "route_of ex_lib GET ''/FILTER/'' = Matched FilterTodos \<and>
   v2_todos ex_lib ex_env (ex_request\<lparr>req_path := ''/FILTER/'', authorization := None\<rparr>) [bob_todo]
     = (Response 401 (Failure ''Unauthorized''), [bob_todo]) \<and>
   v2_todos ex_lib ex_env (ex_request\<lparr>req_path := ''/FILTER/'', authorization := Some ''Bearer''\<rparr>) [bob_todo]
     = (Response 401 (Failure ''Unauthorized''), [bob_todo]) \<and>
   v2_todos ex_lib ex_env
      (ex_request\<lparr>req_path := ''/FILTER/'', authorization := Some (''Bearer'' @ CHR '' '' # ''tok-stale'')\<rparr>)
      [bob_todo]
     = (Response 403 (Failure ''Invalid token''), [bob_todo]) \<and>
   v2_todos ex_lib ex_env
      (ex_request\<lparr>req_path := ''/FILTER/'', authorization := Some (''Bearer'' @ CHR '' '' # ''tok-alice'')\<rparr>)
      [bob_todo]
     = handler ex_env FilterTodos
         (ex_request\<lparr>req_path := ''/FILTER/'', authorization := Some (''Bearer'' @ CHR '' '' # ''tok-alice''),
            req_user := Some alice\<rparr>) [bob_todo]"
proof -
  have route: "route_of ex_lib GET ''/FILTER/'' = Matched FilterTodos"
    by (simp add: route_of_def strip_slash_def decode_param_def to_lower_def)
  have r: "\<And>a. route_of ex_lib
      (req_method (ex_request\<lparr>req_path := ''/FILTER/'', authorization := a\<rparr>))
      (req_path (ex_request\<lparr>req_path := ''/FILTER/'', authorization := a\<rparr>)) = Matched FilterTodos"
    using route by (simp add: ex_request_def)
  have stale: "jwt_verify ex_lib ''tok-stale'' = None" by (simp add: ex_lib_def)
  have good: "jwt_verify ex_lib ''tok-alice'' = Some alice" by (simp add: ex_lib_def)
  show ?thesis
    using route
      authenticate_gate[OF r[of None], of ex_env "[bob_todo]"]
      authenticate_gate[OF r[of "Some ''Bearer''"], of ex_env "[bob_todo]"]
      authenticate_gate[OF r[of "Some (''Bearer'' @ CHR '' '' # ''tok-stale'')"], of ex_env "[bob_todo]",
        THEN conjunct2, THEN conjunct1, rule_format, of "''Bearer''" "''tok-stale''" "''tok-stale''"]
      authenticate_gate[OF r[of "Some (''Bearer'' @ CHR '' '' # ''tok-alice'')"], of ex_env "[bob_todo]",
        THEN conjunct2, THEN conjunct2, rule_format, of "''Bearer''" "''tok-alice''" "''tok-alice''" alice]
      stale good
    by (simp add: ex_request_def)
qed

text \<open>
  C8 as stated fails in two ways. A header of another scheme, \<^verbatim>\<open>Basic tok-alice\<close>, carries
  no bearer token, and yet the handler runs for Alice. And a request to the spec's Toggle
  path, which has no route in variant 2, is answered 404 without a token, not 401.
\<close>
theorem gate_ignores_scheme:
  "v2_todos ex_lib ex_env (ex_request\<lparr>authorization := Some ''Basic tok-alice''\<rparr>) [bob_todo, alice_work]
     = (Response 200 (Todos [alice_work]), [bob_todo, alice_work]) \<and>
   v2_todos ex_lib ex_env
      (ex_request\<lparr>req_method := PATCH, req_path := ''/t1/toggle'', authorization := None\<rparr>) [bob_todo]
     = (Response 404 (CannotPage PATCH ''/t1/toggle''), [bob_todo])"
  by (simp add: v2_todos_def ex_request_def authenticate_def header_token_def truthy_def
      ex_lib_def v2_list_def alice_def sort_createdAt_desc_def alice_work_def bob_todo_def
      route_of_def strip_slash_def)

subsection \<open>C9: search in variant 1\<close>




subsection \<open>C10: the \<open>completed\<close> parameter in variant 1\<close>

text \<open>
  C10. Whatever the other parameters are: List with \<^verbatim>\<open>completed=v\<close> answers as List without
  \<^verbatim>\<open>completed\<close> does, with the todos of that answer restricted to those whose \<open>completed\<close>
  is true when \<open>v\<close> is the string \<^verbatim>\<open>true\<close>, and to those whose \<open>completed\<close> is false for
  every other \<open>v\<close> (\<^verbatim>\<open>True\<close>, \<^verbatim>\<open>1\<close>, \<^verbatim>\<open>yes\<close>, the empty string).
\<close>
theorem completed_only_true_is_true:
  "v1_list ext (q\<lparr>q_completed := Some v\<rparr>) store
     = (case v1_list ext (q\<lparr>q_completed := None\<rparr>) store of
          Response s (Todos L) \<Rightarrow> Response s (Todos (filter (\<lambda>t. completed t = (v = ''true'')) L))
        | r \<Rightarrow> r)"
proof (cases "list_filter ext (q\<lparr>q_completed := None\<rparr>)")
  case None
  then have "list_filter ext (q\<lparr>q_completed := Some v\<rparr>) = None"
    by (auto simp: list_filter_def Let_def split: option.splits)
  with None show ?thesis by (simp add: v1_list_def)
next
  case (Some f)
  then have f': "list_filter ext (q\<lparr>q_completed := Some v\<rparr>) = Some (f\<lparr>f_completed := Some (v = ''true'')\<rparr>)"
    and fc: "f_completed f = None"
    by (auto simp: list_filter_def Let_def split: option.splits)
  have "filter (matches (f\<lparr>f_completed := Some (v = ''true'')\<rparr>)) store
        = filter (\<lambda>t. completed t = (v = ''true'')) (filter (matches f) store)"
    using fc by (auto simp: matches_def intro!: filter_cong)
  then show ?thesis
    using Some f' by (simp add: v1_list_def filter_sort_createdAt_desc)
qed

text \<open>
  C10, instances: \<^verbatim>\<open>completed=True\<close> and \<^verbatim>\<open>completed=yes\<close> list the open todo,
  \<^verbatim>\<open>completed=true\<close> lists the completed one.
\<close>
theorem completed_only_true_is_true_witness:
  "v1_list (\<lambda>p. None) (empty_query\<lparr>q_completed := Some ''True''\<rparr>) [ex_todo, done_todo]
     = Response 200 (Todos [ex_todo]) \<and>
   v1_list (\<lambda>p. None) (empty_query\<lparr>q_completed := Some ''yes''\<rparr>) [ex_todo, done_todo]
     = Response 200 (Todos [ex_todo]) \<and>
   v1_list (\<lambda>p. None) (empty_query\<lparr>q_completed := Some ''true''\<rparr>) [ex_todo, done_todo]
     = Response 200 (Todos [done_todo])"
proof -
  have base: "v1_list (\<lambda>p. None) (empty_query\<lparr>q_completed := None\<rparr>) [ex_todo, done_todo]
      = Response 200 (Todos [ex_todo, done_todo])"
    by (simp add: v1_list_def list_filter_def truthy_def empty_query_def matches_def
        sort_createdAt_desc_def ex_todo_def done_todo_def)
  show ?thesis
    using completed_only_true_is_true[where ext="\<lambda>p. None" and q=empty_query and v="''True''"
        and store="[ex_todo, done_todo]"]
      completed_only_true_is_true[where ext="\<lambda>p. None" and q=empty_query and v="''yes''"
        and store="[ex_todo, done_todo]"]
      completed_only_true_is_true[where ext="\<lambda>p. None" and q=empty_query and v="''true''"
        and store="[ex_todo, done_todo]"]
    by (simp add: base) (simp add: ex_todo_def done_todo_def)
qed


end
